theory Spec2Isabelle
  imports Complex_Main "HOL-Library.Log_Nat" "HOL-Library.Char_ord" "HOL-Library.List_Lexorder"
begin

section \<open>Python values and exceptions\<close>

text \<open>
  The service of \<^verbatim>\<open>app.py\<close> receives JSON bodies, so the values that reach its
  functions are the ones \<^verbatim>\<open>json.loads\<close> builds: \<^verbatim>\<open>None\<close>, booleans, unbounded
  integers, floats (the decoder also accepts \<^verbatim>\<open>NaN\<close>, \<^verbatim>\<open>Infinity\<close> and
  \<^verbatim>\<open>-Infinity\<close>), strings, lists and dictionaries.

  A float is either a finite number, written with its exact value, one of the two
  infinities or NaN. The two zeros are not told apart.
\<close>

datatype pyfloat = Finite real | PosInf | NegInf | NaN

datatype pyval =
    PyNone
  | PyBool bool
  | PyInt int
  | PyFloat pyfloat
  | PyStr string
  | PyList "pyval list"
  | PyDict "(string \<times> pyval) list"

datatype exn =
    ValueError
  | TypeError
  | OverflowError
  | AttributeError string  \<comment> \<open>the name of the type that lacks the attribute\<close>
  | UnicodeEncodeError
  | SQLiteError string  \<comment> \<open>the text of the exception\<close>

text \<open>
  Comparison of an integer with a float, as Python does it: exact on finite values,
  false whenever NaN takes part.
\<close>

fun int_le_float :: "int \<Rightarrow> pyfloat \<Rightarrow> bool" where
  "int_le_float n (Finite x) = (of_int n \<le> x)"
| "int_le_float n PosInf = True"
| "int_le_float n NegInf = False"
| "int_le_float n NaN = False"

fun float_le_int :: "pyfloat \<Rightarrow> int \<Rightarrow> bool" where
  "float_le_int (Finite x) n = (x \<le> of_int n)"
| "float_le_int PosInf n = False"
| "float_le_int NegInf n = True"
| "float_le_int NaN n = False"

text \<open>
  \<^verbatim>\<open>float(n)\<close> for an integer \<^verbatim>\<open>n\<close>: the nearest double, ties to the even
  significand of 53 bits; \<^verbatim>\<open>OverflowError\<close> when the rounded value needs an exponent
  beyond the double range, that is from \<open>2^1024 - 2^970\<close> on in absolute value.
\<close>

definition round53 :: "int \<Rightarrow> int" where
  "round53 n =
     (let a = \<bar>n\<bar>; k = nat (bitlen a) in
      if k \<le> 53 then n
      else
        let sh = k - 53;
            q = a div 2 ^ sh;
            r = a mod 2 ^ sh;
            h = 2 ^ (sh - 1);
            q' = (if h < r \<or> (r = h \<and> odd q) then q + 1 else q)
        in sgn n * (q' * 2 ^ sh))"

definition float_of_int :: "int \<Rightarrow> exn + pyfloat" where
  "float_of_int n =
     (if 2 ^ 1024 - 2 ^ 970 \<le> \<bar>n\<bar> then Inl OverflowError
      else Inr (Finite (of_int (round53 n))))"

text \<open>
  \<^verbatim>\<open>float(v)\<close>. What \<^verbatim>\<open>float\<close> makes of a string is the interpreter's literal
  parser, which is no code of this repository: it is the parameter \<open>str_float\<close>, with
  \<open>None\<close> where Python raises \<^verbatim>\<open>ValueError\<close>.
\<close>

fun py_float :: "(string \<Rightarrow> pyfloat option) \<Rightarrow> pyval \<Rightarrow> exn + pyfloat" where
  "py_float str_float PyNone = Inl TypeError"
| "py_float str_float (PyBool b) = Inr (Finite (if b then 1 else 0))"
| "py_float str_float (PyInt n) = float_of_int n"
| "py_float str_float (PyFloat x) = Inr x"
| "py_float str_float (PyStr s) =
     (case str_float s of None \<Rightarrow> Inl ValueError | Some x \<Rightarrow> Inr x)"
| "py_float str_float (PyList vs) = Inl TypeError"
| "py_float str_float (PyDict kvs) = Inl TypeError"

text \<open>Truth value of a Python value, as \<^verbatim>\<open>not data\<close> tests it.\<close>

fun truthy :: "pyval \<Rightarrow> bool" where
  "truthy PyNone = False"
| "truthy (PyBool b) = b"
| "truthy (PyInt n) = (n \<noteq> 0)"
| "truthy (PyFloat x) = (x \<noteq> Finite 0)"
| "truthy (PyStr s) = (s \<noteq> [])"
| "truthy (PyList vs) = (vs \<noteq> [])"
| "truthy (PyDict kvs) = (kvs \<noteq> [])"

section \<open>Configuration\<close>

datatype coordinate = Latitude | Longitude

fun MAX_COORDINATE_VALUE :: "coordinate \<Rightarrow> int" where
  "MAX_COORDINATE_VALUE Latitude = 90"
| "MAX_COORDINATE_VALUE Longitude = 180"

fun MIN_COORDINATE_VALUE :: "coordinate \<Rightarrow> int" where
  "MIN_COORDINATE_VALUE Latitude = - 90"
| "MIN_COORDINATE_VALUE Longitude = - 180"

section \<open>The coordinate validator\<close>

text \<open>
  \<^verbatim>\<open>validate_coordinates\<close> either returns the pair, returns \<^verbatim>\<open>None\<close>, or lets an
  exception escape. The only trace of why it returned \<^verbatim>\<open>None\<close> is the warning it
  sends to the operational logger, which is kept here beside the result.
\<close>

datatype warning =
    BadLatitude pyfloat
  | BadLongitude pyfloat
  | ConversionError exn

type_synonym validation = "warning list \<times> (exn + (pyfloat \<times> pyfloat) option)"

definition conversion_failed :: "exn \<Rightarrow> validation" where
  \<comment> \<open>\<^verbatim>\<open>except (ValueError, TypeError) as e\<close>: anything else escapes.\<close>
  "conversion_failed e =
     (if e = ValueError \<or> e = TypeError then ([ConversionError e], Inr None)
      else ([], Inl e))"

definition validate_coordinates ::
  "(string \<Rightarrow> pyfloat option) \<Rightarrow> pyval \<Rightarrow> pyval \<Rightarrow> validation" where
  "validate_coordinates str_float latitude longitude =
     (case py_float str_float latitude of
        Inl e \<Rightarrow> conversion_failed e
      | Inr lat \<Rightarrow>
          (case py_float str_float longitude of
             Inl e \<Rightarrow> conversion_failed e
           | Inr lon \<Rightarrow>
               if \<not> (int_le_float (MIN_COORDINATE_VALUE Latitude) lat \<and>
                      float_le_int lat (MAX_COORDINATE_VALUE Latitude))
               then ([BadLatitude lat], Inr None)
               else if \<not> (int_le_float (MIN_COORDINATE_VALUE Longitude) lon \<and>
                           float_le_int lon (MAX_COORDINATE_VALUE Longitude))
               then ([BadLongitude lon], Inr None)
               else ([], Inr (Some (lat, lon)))))"

section \<open>The rate limiter\<close>

text \<open>
  The clock reading \<^verbatim>\<open>datetime.now().timestamp()\<close> is a finite double.
  \<open>Double m e\<close> is the double of value \<open>m * 2^e\<close>; a double has such a form with
  \<open>\<bar>m\<bar> < 2^53\<close> and \<open>-1074 \<le> e\<close>. The limiter only stores clock readings and
  subtracts them, so nothing else of the arithmetic is needed:
  \<open>double_sub\<close> is the subtraction of IEEE 754 in the default rounding, the exact
  difference rounded to the nearest double, ties to the even significand, and an
  infinity when the rounded value is beyond the double range. The exact difference of
  two doubles is a multiple of the smaller of the two units, so rounding it to 53 bits
  with \<open>round53\<close> is that rounding. The difference is then compared with
  \<^verbatim>\<open>window\<close>, a finite number taken with its exact value; Python compares a float with
  an integer or a float exactly.
\<close>

datatype double = Double int int


fun double_sub :: "double \<Rightarrow> double \<Rightarrow> pyfloat" where
  "double_sub (Double m1 e1) (Double m2 e2) =
     (let e = min e1 e2;
          d = m1 * 2 ^ nat (e1 - e) - m2 * 2 ^ nat (e2 - e);
          r = of_int (round53 d) * 2 powi e
      in if 2 ^ 1024 \<le> \<bar>r\<bar> then (if 0 < r then PosInf else NegInf) else Finite r)"

fun float_less :: "pyfloat \<Rightarrow> real \<Rightarrow> bool" where
  "float_less (Finite x) w = (x < w)"
| "float_less PosInf w = False"
| "float_less NegInf w = True"
| "float_less NaN w = False"

text \<open>
  \<^verbatim>\<open>rate_limit(max_requests, window)\<close> keeps the dictionary \<^verbatim>\<open>requests\<close> from client
  address to the list of admitted request times. \<open>allow\<close> is the part of its
  \<^verbatim>\<open>decorated_function\<close> before the wrapped handler runs: prune, test, append. The
  result says whether the request goes on to the handler.
\<close>

type_synonym limiter = "string \<rightharpoonup> double list"

definition stored :: "limiter \<Rightarrow> string \<Rightarrow> double list" where
  \<comment> \<open>\<^verbatim>\<open>requests.get(client_ip, [])\<close>\<close>
  "stored requests client_ip = (case requests client_ip of None \<Rightarrow> [] | Some ts \<Rightarrow> ts)"

definition allow :: "int \<Rightarrow> real \<Rightarrow> string \<Rightarrow> double \<Rightarrow> limiter \<Rightarrow> bool \<times> limiter" where
  "allow max_requests window client_ip current_time requests =
     (let kept = [req_time \<leftarrow> stored requests client_ip.
                    float_less (double_sub current_time req_time) window];
          requests' = requests(client_ip \<mapsto> kept)
      in if max_requests \<le> int (length kept) then (False, requests')
         else (True, requests'(client_ip \<mapsto> kept @ [current_time])))"

section \<open>The store\<close>

text \<open>
  The two tables of \<^verbatim>\<open>init_database\<close>, rows in insertion order, and the
  \<^verbatim>\<open>AUTOINCREMENT\<close> counters. Timestamps are the text SQLite's \<^verbatim>\<open>datetime('now')\<close>
  gives, compared as text. A block \<^verbatim>\<open>with get_db() as conn: ... conn.commit()\<close> either
  commits all of its statements or raises \<^verbatim>\<open>sqlite3.Error\<close> and changes nothing;
  whether it fails is outside the program, so each operation takes the failure (the
  text of the exception) as its first argument.
\<close>

text \<open>
  A text bound to a parameter of an \<^verbatim>\<open>INSERT\<close> is a Python \<^verbatim>\<open>str\<close>: a list of code
  points, among them possibly lone surrogates (U+D800 to U+DFFF). The binding encodes
  the text as UTF-8 and raises \<^verbatim>\<open>UnicodeEncodeError\<close>, which is no
  \<^verbatim>\<open>sqlite3.Error\<close>, on a lone surrogate. The other texts of the model hold no such
  character and are written as HOL strings; \<open>py_str\<close> gives their code points.
\<close>

type_synonym pystr = "nat list"

definition py_str :: "string \<Rightarrow> pystr" where
  "py_str s = map of_char s"

definition encodable :: "pystr \<Rightarrow> bool" where
  "encodable s = list_all (\<lambda>c. c < 0xD800 \<or> 0xDFFF < c) s"

record location =
  loc_id :: nat
  loc_latitude :: pyfloat
  loc_longitude :: pyfloat
  loc_timestamp :: string
  loc_created_at :: string

record error_log =
  log_id :: nat
  log_error_message :: pystr
  log_endpoint :: pystr
  log_created_at :: string

record store =
  locations :: "location list"
  error_logs :: "error_log list"
  locations_seq :: nat
  error_logs_seq :: nat

definition insert_location ::
  "string option \<Rightarrow> string \<Rightarrow> pyfloat \<Rightarrow> pyfloat \<Rightarrow> store \<Rightarrow> exn + (nat \<times> store)" where
  "insert_location fault db_now lat lon s =
     (case fault of
        Some m \<Rightarrow> Inl (SQLiteError m)
      | None \<Rightarrow>
          let location_id = Suc (locations_seq s) in
          Inr (location_id,
               s\<lparr>locations := locations s @
                    [\<lparr>loc_id = location_id, loc_latitude = lat, loc_longitude = lon,
                      loc_timestamp = db_now, loc_created_at = db_now\<rparr>],
                 locations_seq := location_id\<rparr>))"

text \<open>
  In \<^verbatim>\<open>log_error_to_db\<close> the failure argument is the \<^verbatim>\<open>sqlite3.Error\<close> the run meets:
  on connecting or preparing the statement, or, when the parameters were bound, on
  executing or committing. Without one, the binding of the two texts decides.
\<close>

definition insert_error_log ::
  "string option \<Rightarrow> string \<Rightarrow> pystr \<Rightarrow> pystr \<Rightarrow> store \<Rightarrow> exn + store" where
  "insert_error_log fault db_now error_message endpoint s =
     (case fault of
        Some m \<Rightarrow> Inl (SQLiteError m)
      | None \<Rightarrow>
          if \<not> (encodable error_message \<and> encodable endpoint) then Inl UnicodeEncodeError
          else
            Inr (s\<lparr>error_logs := error_logs s @
                      [\<lparr>log_id = Suc (error_logs_seq s), log_error_message = error_message,
                        log_endpoint = endpoint, log_created_at = db_now\<rparr>],
                   error_logs_seq := Suc (error_logs_seq s)\<rparr>))"

definition log_error_to_db ::
  "string option \<Rightarrow> string \<Rightarrow> pystr \<Rightarrow> pystr \<Rightarrow> store \<Rightarrow> exn + store" where
  \<comment> \<open>\<^verbatim>\<open>except SQLiteError\<close> only logs; any other exception escapes.\<close>
  "log_error_to_db fault db_now error_message endpoint s =
     (case insert_error_log fault db_now (take 500 error_message) endpoint s of
        Inr s' \<Rightarrow> Inr s'
      | Inl (SQLiteError m) \<Rightarrow> Inr s
      | Inl e \<Rightarrow> Inl e)"

text \<open>
  The three queries of \<^verbatim>\<open>get_statistics\<close>. \<^verbatim>\<open>ORDER BY timestamp ... LIMIT 1\<close> is the
  head of the rows sorted by that column; which of several rows with the same timestamp
  comes first is the engine's choice, here the one a stable sort of the rows gives.
\<close>

definition count_locations :: "store \<Rightarrow> nat" where
  "count_locations s = length (locations s)"

definition order_by_timestamp_asc :: "location list \<Rightarrow> location list" where
  "order_by_timestamp_asc rows = sort_key loc_timestamp rows"

definition order_by_timestamp_desc :: "location list \<Rightarrow> location list" where
  "order_by_timestamp_desc rows = rev (sort_key loc_timestamp rows)"

definition fetchone :: "'a list \<Rightarrow> 'a option" where
  "fetchone rows = (case rows of [] \<Rightarrow> None | r # _ \<Rightarrow> Some r)"

definition select_last_location :: "store \<Rightarrow> (pyfloat \<times> pyfloat \<times> string) option" where
  "select_last_location s =
     map_option (\<lambda>r. (loc_latitude r, loc_longitude r, loc_timestamp r))
       (fetchone (order_by_timestamp_desc (locations s)))"

definition select_first_record :: "store \<Rightarrow> string option" where
  "select_first_record s =
     map_option loc_timestamp (fetchone (order_by_timestamp_asc (locations s)))"

definition query_statistics ::
  "string option \<Rightarrow> store \<Rightarrow>
     exn + (nat \<times> (pyfloat \<times> pyfloat \<times> string) option \<times> string option)" where
  "query_statistics fault s =
     (case fault of
        Some m \<Rightarrow> Inl (SQLiteError m)
      | None \<Rightarrow> Inr (count_locations s, select_last_location s, select_first_record s))"

definition select_one :: "string option \<Rightarrow> store \<Rightarrow> exn + (string \<times> int) list option" where
  \<comment> \<open>\<^verbatim>\<open>SELECT 1\<close> and \<^verbatim>\<open>fetchone()\<close>: one row with one column.\<close>
  "select_one fault s =
     (case fault of
        Some m \<Rightarrow> Inl (SQLiteError m)
      | None \<Rightarrow> Inr (fetchone [[(''1'', 1)]]))"

section \<open>Requests, responses and the handlers\<close>

text \<open>
  What a handler reads of the Flask request, and what it reads of the world outside
  the program while it runs: the float parser, the clocks, and whether its own database
  block or the one inside \<^verbatim>\<open>log_error_to_db\<close> fails.
\<close>

record request =
  is_json :: bool
  remote_addr :: string
  get_json :: pyval  \<comment> \<open>\<^verbatim>\<open>request.get_json(silent=True)\<close>; \<^verbatim>\<open>None\<close> when the body does not parse\<close>

record env =
  str_float :: "string \<Rightarrow> pyfloat option"
  clock :: double  \<comment> \<open>\<^verbatim>\<open>datetime.now().timestamp()\<close>\<close>
  iso_clock :: string  \<comment> \<open>\<^verbatim>\<open>datetime.now().isoformat()\<close>\<close>
  db_clock :: string  \<comment> \<open>\<^verbatim>\<open>datetime('now')\<close>\<close>
  db_fault :: "string option"
  sink_fault :: "string option"

record sys =
  requests :: limiter
  db :: store

text \<open>
  The response texts are Russian in the source; each constant stands for one of them:
  \<^item> \<open>ContentTypeMustBeJson\<close>: the 415 text, "Content-Type must be application/json";
  \<^item> \<open>RateLimitExceeded\<close>: the 429 text, "request limit exceeded, try later";
  \<^item> \<open>InvalidJsonFormat\<close>: 400, "invalid JSON format";
  \<^item> \<open>MissingRequiredFields\<close>: 400, "required fields missing: latitude and longitude";
  \<^item> \<open>InvalidCoordinates\<close>: 400, "invalid coordinates";
  \<^item> \<open>SaveFailed\<close>: 500, "internal server error while saving the data";
  \<^item> \<open>InternalServerError\<close>: 500, "internal server error";
  \<^item> \<open>StatisticsFailed\<close>: 500, "error getting the statistics".
\<close>

datatype message =
    ContentTypeMustBeJson
  | RateLimitExceeded
  | InvalidJsonFormat
  | MissingRequiredFields
  | InvalidCoordinates
  | SaveFailed
  | InternalServerError
  | StatisticsFailed

datatype health_detail = Timestamp string | ErrorDetail string

datatype body =
    ErrorBody message
  | SavedBody nat pyfloat pyfloat
  | StatisticsBody nat "(pyfloat \<times> pyfloat \<times> string) option" "string option"
  | HealthBody string string health_detail

type_synonym response = "body \<times> nat"

type_synonym handler = "env \<Rightarrow> request \<Rightarrow> sys \<Rightarrow> (exn + response) \<times> sys"

text \<open>
  \<^verbatim>\<open>str(e)\<close>. For \<^verbatim>\<open>sqlite3.Error\<close> it is the text the exception carries. The program
  never takes it of a \<^verbatim>\<open>ValueError\<close> or \<^verbatim>\<open>TypeError\<close> outside the logger, since
  \<^verbatim>\<open>validate_coordinates\<close> catches both, nor of a \<^verbatim>\<open>UnicodeEncodeError\<close>, since the
  handler passes \<^verbatim>\<open>log_error_to_db\<close> no surrogate; their class names stand there.
\<close>

fun exn_str :: "exn \<Rightarrow> string" where
  "exn_str (SQLiteError m) = m"
| "exn_str OverflowError = ''int too large to convert to float''"
| "exn_str (AttributeError t) = [CHR 0x27] @ t @ [CHR 0x27] @ '' object has no attribute '' @
     [CHR 0x27] @ ''get'' @ [CHR 0x27]"
| "exn_str ValueError = ''ValueError''"
| "exn_str TypeError = ''TypeError''"
| "exn_str UnicodeEncodeError = ''UnicodeEncodeError''"

fun type_name :: "pyval \<Rightarrow> string" where
  "type_name PyNone = ''NoneType''"
| "type_name (PyBool b) = ''bool''"
| "type_name (PyInt n) = ''int''"
| "type_name (PyFloat x) = ''float''"
| "type_name (PyStr s) = ''str''"
| "type_name (PyList vs) = ''list''"
| "type_name (PyDict kvs) = ''dict''"

definition py_get :: "pyval \<Rightarrow> string \<Rightarrow> exn + pyval" where
  \<comment> \<open>\<^verbatim>\<open>data.get(key)\<close>: only a dictionary has the method.\<close>
  "py_get data key =
     (case data of
        PyDict kvs \<Rightarrow> Inr (case map_of kvs key of None \<Rightarrow> PyNone | Some v \<Rightarrow> v)
      | _ \<Rightarrow> Inl (AttributeError (type_name data)))"

definition persist :: "env \<Rightarrow> pyfloat \<Rightarrow> pyfloat \<Rightarrow> sys \<Rightarrow> (exn + response) \<times> sys" where
  \<comment> \<open>The inner \<^verbatim>\<open>try\<close> of \<^verbatim>\<open>save_location\<close>.\<close>
  "persist e lat lon st =
     (case insert_location (db_fault e) (db_clock e) lat lon (db st) of
        Inr (location_id, d) \<Rightarrow> (Inr (SavedBody location_id lat lon, 200), st\<lparr>db := d\<rparr>)
      | Inl (SQLiteError m) \<Rightarrow>
          (case log_error_to_db (sink_fault e) (db_clock e) (py_str (exn_str (SQLiteError m)))
                  (py_str ''/save_location'') (db st) of
             Inr d \<Rightarrow> (Inr (ErrorBody SaveFailed, 500), st\<lparr>db := d\<rparr>)
           | Inl x \<Rightarrow> (Inl x, st))
      | Inl x \<Rightarrow> (Inl x, st))"

definition save_location_try :: handler where
  \<comment> \<open>The body of the outer \<^verbatim>\<open>try\<close> of \<^verbatim>\<open>save_location\<close>.\<close>
  "save_location_try e req st =
     (let data = get_json req in
      if \<not> truthy data then (Inr (ErrorBody InvalidJsonFormat, 400), st)
      else
        case py_get data ''latitude'' of
          Inl x \<Rightarrow> (Inl x, st)
        | Inr lat \<Rightarrow>
            (case py_get data ''longitude'' of
               Inl x \<Rightarrow> (Inl x, st)
             | Inr lon \<Rightarrow>
                 if lat = PyNone \<or> lon = PyNone
                 then (Inr (ErrorBody MissingRequiredFields, 400), st)
                 else
                   (case snd (validate_coordinates (str_float e) lat lon) of
                      Inl x \<Rightarrow> (Inl x, st)
                    | Inr None \<Rightarrow> (Inr (ErrorBody InvalidCoordinates, 400), st)
                    | Inr (Some (lat', lon')) \<Rightarrow> persist e lat' lon' st)))"

definition save_location :: handler where
  \<comment> \<open>\<^verbatim>\<open>except Exception\<close>: log to the error table, answer 500.\<close>
  "save_location e req st =
     (case save_location_try e req st of
        (Inr r, st') \<Rightarrow> (Inr r, st')
      | (Inl x, st') \<Rightarrow>
          (case log_error_to_db (sink_fault e) (db_clock e) (py_str (exn_str x))
                  (py_str ''/save_location'') (db st') of
             Inr d \<Rightarrow> (Inr (ErrorBody InternalServerError, 500), st'\<lparr>db := d\<rparr>)
           | Inl x' \<Rightarrow> (Inl x', st')))"

definition require_json :: "handler \<Rightarrow> handler" where
  "require_json f e req st =
     (if \<not> is_json req then (Inr (ErrorBody ContentTypeMustBeJson, 415), st)
      else f e req st)"

definition rate_limit :: "int \<Rightarrow> real \<Rightarrow> handler \<Rightarrow> handler" where
  "rate_limit max_requests window f e req st =
     (case allow max_requests window (remote_addr req) (clock e) (requests st) of
        (False, rs) \<Rightarrow> (Inr (ErrorBody RateLimitExceeded, 429), st\<lparr>requests := rs\<rparr>)
      | (True, rs) \<Rightarrow> f e req (st\<lparr>requests := rs\<rparr>))"

definition save_location_route :: handler where
  \<comment> \<open>\<^verbatim>\<open>@require_json\<close> above \<^verbatim>\<open>@rate_limit(max_requests=60, window=60)\<close>\<close>
  "save_location_route = require_json (rate_limit 60 60 save_location)"

definition get_statistics :: "env \<Rightarrow> sys \<Rightarrow> (exn + response) \<times> sys" where
  "get_statistics e st =
     (case query_statistics (db_fault e) (db st) of
        Inr (total_locations, last_location, first_record) \<Rightarrow>
          (Inr (StatisticsBody total_locations last_location first_record, 200), st)
      | Inl (SQLiteError m) \<Rightarrow> (Inr (ErrorBody StatisticsFailed, 500), st)
      | Inl x \<Rightarrow> (Inl x, st))"

definition health_check :: "env \<Rightarrow> sys \<Rightarrow> (exn + response) \<times> sys" where
  "health_check e st =
     (case select_one (db_fault e) (db st) of
        Inr row \<Rightarrow>
          (let db_ok = (row \<noteq> None) in
           (Inr (HealthBody ''healthy'' (if db_ok then ''connected'' else ''disconnected'')
                   (Timestamp (iso_clock e)), 200), st))
      | Inl (SQLiteError m) \<Rightarrow>
          (Inr (HealthBody ''unhealthy'' ''disconnected'' (ErrorDetail (exn_str (SQLiteError m))),
                503), st)
      | Inl x \<Rightarrow> (Inl x, st))"

text \<open>
  A run of requests, each with the world it meets, through a handler: the answers in
  order and the state at the end. \<open>last_call\<close> is the clock reading of the last request
  of a client in a run, if it made one.
\<close>

fun serve :: "handler \<Rightarrow> (env \<times> request) list \<Rightarrow> sys \<Rightarrow> (exn + response) list \<times> sys" where
  "serve h [] st = ([], st)"
| "serve h ((e, req) # calls) st =
     (case h e req st of
        (r, st') \<Rightarrow> (case serve h calls st' of (rs, st'') \<Rightarrow> (r # rs, st'')))"


section \<open>Inputs of the closed examples\<close>

text \<open>
  The closed examples below need a float parser to pass along. This one agrees with
  \<^verbatim>\<open>float\<close> on the two strings the examples use: \<^verbatim>\<open>float("abc")\<close> raises
  \<^verbatim>\<open>ValueError\<close>, and \<^verbatim>\<open>float("55.5")\<close> is 55.5, a double. Every general theorem
  holds for any parser.
\<close>

definition example_str_float :: "string \<Rightarrow> pyfloat option" where
  "example_str_float s = (if s = ''55.5'' then Some (Finite 55.5) else None)"

definition example_env :: env where
  "example_env =
     \<lparr>str_float = example_str_float, clock = Double 1000 0, iso_clock = ''2024-05-01T12:00:00'',
      db_clock = ''2024-05-01 12:00:00'', db_fault = None, sink_fault = None\<rparr>"

definition empty_store :: store where
  "empty_store = \<lparr>locations = [], error_logs = [], locations_seq = 0, error_logs_seq = 0\<rparr>"

definition example_sys :: sys where
  "example_sys = \<lparr>requests = Map.empty, db = empty_store\<rparr>"

definition example_request :: "pyval \<Rightarrow> pyval \<Rightarrow> request" where
  "example_request lat lon =
     \<lparr>is_json = True, remote_addr = ''10.0.0.1'',
      get_json = PyDict [(''latitude'', lat), (''longitude'', lon)]\<rparr>"

definition example_call :: "int \<Rightarrow> env \<times> request" where
  \<comment> \<open>a valid submission of the example client when the clock reads \<open>t\<close> seconds\<close>
  "example_call t = (example_env\<lparr>clock := Double t 0\<rparr>, example_request (PyInt 1) (PyInt 2))"

definition example_store :: store where
  "example_store =
     \<lparr>locations =
        [\<lparr>loc_id = 1, loc_latitude = Finite 55.5, loc_longitude = Finite 37.5,
          loc_timestamp = ''2024-05-01 12:00:00'', loc_created_at = ''2024-05-01 12:00:00''\<rparr>,
         \<lparr>loc_id = 2, loc_latitude = Finite 10, loc_longitude = Finite 20,
          loc_timestamp = ''2024-05-02 08:30:00'', loc_created_at = ''2024-05-02 08:30:00''\<rparr>,
         \<lparr>loc_id = 3, loc_latitude = Finite 1, loc_longitude = Finite 2,
          loc_timestamp = ''2024-04-30 23:59:59'', loc_created_at = ''2024-05-02 08:31:00''\<rparr>],
      error_logs = [], locations_seq = 3, error_logs_seq = 0\<rparr>"

section \<open>Auxiliary facts\<close>

lemmas example_defs =
  example_env_def example_sys_def example_request_def example_str_float_def
  empty_store_def example_store_def example_call_def

lemmas route_defs =
  save_location_route_def require_json_def rate_limit_def save_location_def
  save_location_try_def persist_def py_get_def

lemmas validate_defs = validate_coordinates_def conversion_failed_def

lemmas statistics_defs =
  get_statistics_def query_statistics_def count_locations_def
  select_last_location_def select_first_record_def

subsection \<open>Integers that are doubles\<close>

lemma bitlen_le_53:
  assumes "\<bar>n\<bar> < 2 ^ 53"
  shows "nat (bitlen \<bar>n\<bar>) \<le> 53"
proof (cases "n = 0")
  case True
  then show ?thesis by simp
next
  case False
  then have pos: "0 < \<bar>n\<bar>" by simp
  have "(2::int) ^ nat (bitlen \<bar>n\<bar> - 1) \<le> \<bar>n\<bar>"
    using bitlen_bounds [OF pos] by simp
  then have "(2::int) ^ nat (bitlen \<bar>n\<bar> - 1) < 2 ^ 53"
    using assms by linarith
  then have "nat (bitlen \<bar>n\<bar> - 1) < 53"
    by (rule power_less_imp_less_exp [rotated]) simp
  then show ?thesis by linarith
qed

lemma round53_small: "\<bar>n\<bar> < 2 ^ 53 \<Longrightarrow> round53 n = n"
  using bitlen_le_53 [of n] by (simp add: round53_def Let_def)

lemma float_of_int_small:
  "\<bar>n\<bar> < 2 ^ 53 \<Longrightarrow> float_of_int n = Inr (Finite (of_int n))"
  by (simp add: float_of_int_def round53_small)

lemma py_float_raises:
  "py_float sf v = Inl x \<Longrightarrow> x = TypeError \<or> x = ValueError \<or> x = OverflowError"
  by (cases v) (auto simp add: float_of_int_def split: option.splits if_splits)

subsection \<open>Subtraction of doubles\<close>







lemma round53_example: "round53 (60 * 2 ^ 60 - 1) = 60 * 2 ^ 60"
  by code_simp

lemma double_sub_seconds:
  assumes "\<bar>a - b\<bar> < 2 ^ 53"
  shows "double_sub (Double a 0) (Double b 0) = Finite (of_int (a - b))"
proof -
  have "\<bar>of_int (a - b) :: real\<bar> < of_int (2 ^ 53)"
    using assms by (simp only: of_int_abs [symmetric] of_int_less_iff)
  also have "\<dots> < 2 ^ 1024" by simp
  finally have "\<not> 2 ^ 1024 \<le> \<bar>of_int (a - b) :: real\<bar>" by simp
  then show ?thesis using assms by (simp add: round53_small Let_def)
qed

lemma double_sub_rounds: "double_sub (Double 60 0) (Double 1 (- 60)) = Finite 60"
proof -
  have "min (0::int) (- 60) = - 60" by simp
  moreover have "(60::int) * 2 ^ nat (0 - - 60) - 1 * 2 ^ nat (- 60 - - 60) = 60 * 2 ^ 60 - 1"
    by simp
  moreover have "(of_int (60 * 2 ^ 60) :: real) * 2 powi (- 60) = 60"
    by (simp add: power_int_minus)
  ultimately show ?thesis
    by (simp only: double_sub.simps Let_def round53_example) simp
qed

declare double_sub.simps [simp del]

subsection \<open>The limiter\<close>






subsection \<open>The store and the handlers\<close>

lemma encodable_py_str: "encodable (py_str s)"
proof -
  have "c < 0xD800" if "c \<in> set (py_str s)" for c
  proof -
    from that obtain x where "c = of_char x" by (auto simp add: py_str_def)
    moreover have "of_char x < (256::nat)" by (rule nat_of_char_less_256)
    ultimately show ?thesis by linarith
  qed
  then show ?thesis by (auto simp add: encodable_def list_all_iff)
qed

lemma encodable_take: "encodable s \<Longrightarrow> encodable (take n s)"
  by (auto simp add: encodable_def list_all_iff dest: in_set_takeD)

lemma log_error_to_db_encodable:
  assumes "encodable (take 500 m)" and "encodable ep"
  shows "log_error_to_db f n m ep s =
     Inr (case f of
            Some x \<Rightarrow> s
          | None \<Rightarrow>
              s\<lparr>error_logs := error_logs s @
                   [\<lparr>log_id = Suc (error_logs_seq s), log_error_message = take 500 m,
                     log_endpoint = ep, log_created_at = n\<rparr>],
                error_logs_seq := Suc (error_logs_seq s)\<rparr>)"
  using assms by (simp add: log_error_to_db_def insert_error_log_def split: option.split)

lemma log_error_to_db_returns:
  "\<exists>d. log_error_to_db f n (py_str m) (py_str ep) s = Inr d \<and> locations d = locations s"
  by (cases f)
     (simp_all add: log_error_to_db_encodable encodable_py_str encodable_take)

lemma persist_not_400: "persist e lat lon st = (Inr (b, c), st') \<Longrightarrow> c \<noteq> 400"
  using log_error_to_db_returns [of "sink_fault e" "db_clock e" _ "''/save_location''" "db st"]
  by (cases "db_fault e")
     (auto simp add: persist_def insert_location_def Let_def split: sum.splits)

lemma save_location_try_400:
  "save_location_try e req st = (Inr (b, 400), st') \<Longrightarrow> st' = st"
  by (auto simp add: save_location_try_def Let_def
      split: if_splits sum.splits option.splits dest: persist_not_400)

lemma save_location_400:
  "fst (save_location e req st) = Inr (b, 400) \<Longrightarrow> snd (save_location e req st) = st"
proof -
  have "save_location e req st = (Inr (b, 400), st') \<Longrightarrow> st' = st" for st'
    by (auto simp add: save_location_def split: prod.splits sum.splits
        dest: save_location_try_400)
  then show "fst (save_location e req st) = Inr (b, 400) \<Longrightarrow> snd (save_location e req st) = st"
    by (cases "save_location e req st") simp
qed

lemma persist_fault:
  "persist (e\<lparr>db_fault := Some m\<rparr>) lat lon st =
     (Inr (ErrorBody SaveFailed, 500),
      st\<lparr>db := (case log_error_to_db (sink_fault e) (db_clock e) (py_str m)
                         (py_str ''/save_location'') (db st) of
                  Inr d \<Rightarrow> d | Inl x \<Rightarrow> db st)\<rparr>)"
  using log_error_to_db_returns [of "sink_fault e" "db_clock e" m "''/save_location''" "db st"]
  by (auto simp add: persist_def insert_location_def)

lemma persist_ok:
  "fst (persist (e\<lparr>db_fault := None\<rparr>) lat lon st) =
     Inr (SavedBody (Suc (locations_seq (db st))) lat lon, 200)"
  by (simp add: persist_def insert_location_def Let_def)

lemma save_location_try_fault:
  assumes "fst (save_location_try (e\<lparr>db_fault := None\<rparr>) req st) = Inr (SavedBody i lat lon, 200)"
  shows "save_location_try (e\<lparr>db_fault := Some m\<rparr>) req st =
           persist (e\<lparr>db_fault := Some m\<rparr>) lat lon st"
  using assms
  by (auto simp add: save_location_try_def Let_def persist_ok
      split: if_splits sum.splits option.splits)

lemma save_location_fault:
  assumes "fst (save_location (e\<lparr>db_fault := None\<rparr>) req st) = Inr (SavedBody i lat lon, 200)"
  shows "save_location (e\<lparr>db_fault := Some m\<rparr>) req st =
           persist (e\<lparr>db_fault := Some m\<rparr>) lat lon st"
proof -
  have "fst (save_location_try (e\<lparr>db_fault := None\<rparr>) req st) = Inr (SavedBody i lat lon, 200)"
    using assms log_error_to_db_returns [of "sink_fault e" "db_clock e" _ "''/save_location''"]
    by (auto simp add: save_location_def split: prod.splits sum.splits)
  from save_location_try_fault [OF this] show ?thesis
    by (simp add: save_location_def persist_fault)
qed

lemma validate_Some:
  "snd (validate_coordinates sf a b) = Inr (Some (lat, lon)) \<Longrightarrow>
     \<exists>x y. lat = Finite x \<and> lon = Finite y \<and> - 90 \<le> x \<and> x \<le> 90 \<and> - 180 \<le> y \<and> y \<le> 180"
  by (cases "py_float sf a"; cases "py_float sf b")
     (auto simp add: validate_defs split: if_splits elim!: int_le_float.elims float_le_int.elims)

lemma save_location_try_saved:
  assumes "fst (save_location_try e req st) = Inr (SavedBody i lat lon, 200)"
  shows "\<exists>a b. snd (validate_coordinates (str_float e) a b) = Inr (Some (lat, lon))"
proof -
  have p: "fst (persist e lat' lon' st) = Inr (SavedBody i lat lon, 200) \<Longrightarrow> lat' = lat \<and> lon' = lon" for lat' lon'
    using log_error_to_db_returns [of "sink_fault e" "db_clock e" _ "''/save_location''" "db st"]
    by (cases "db_fault e") (auto simp add: persist_def insert_location_def Let_def split: sum.splits)
  show ?thesis using assms
    by (auto simp add: save_location_try_def Let_def split: if_splits sum.splits option.splits dest!: p)
qed







lemma fetchone_asc:
  assumes "rows \<noteq> []"
  shows "\<exists>r \<in> set rows. fetchone (order_by_timestamp_asc rows) = Some r \<and>
           (\<forall>r' \<in> set rows. loc_timestamp r \<le> loc_timestamp r')"
proof -
  let ?ys = "sort_key loc_timestamp rows"
  have s: "set ?ys = set rows" by simp
  with assms have "?ys \<noteq> []" by (metis set_empty)
  then obtain r rest where ys: "?ys = r # rest" by (cases ?ys) auto
  have "sorted (map loc_timestamp ?ys)" by (rule sorted_sort_key)
  then have "\<forall>r' \<in> set ?ys. loc_timestamp r \<le> loc_timestamp r'"
    unfolding ys by auto
  moreover have "r \<in> set rows" using s ys by (metis list.set_intros(1))
  ultimately show ?thesis using s ys
    by (auto simp add: fetchone_def order_by_timestamp_asc_def)
qed

lemma fetchone_desc:
  assumes "rows \<noteq> []"
  shows "\<exists>r \<in> set rows. fetchone (order_by_timestamp_desc rows) = Some r \<and>
           (\<forall>r' \<in> set rows. loc_timestamp r' \<le> loc_timestamp r)"
proof -
  let ?ys = "sort_key loc_timestamp rows"
  have s: "set ?ys = set rows" by simp
  with assms have "rev ?ys \<noteq> []" by (metis set_empty rev_is_Nil_conv)
  then obtain r rest where ys: "rev ?ys = r # rest" by (cases "rev ?ys") auto
  then have ys': "?ys = rev rest @ [r]" by (metis rev_rev_ident rev.simps(2))
  have "sorted (map loc_timestamp ?ys)" by (rule sorted_sort_key)
  then have "\<forall>r' \<in> set ?ys. loc_timestamp r' \<le> loc_timestamp r"
    unfolding ys' by (auto simp add: sorted_append)
  moreover have "r \<in> set rows" using s ys' by (metis in_set_conv_decomp)
  ultimately show ?thesis using s ys
    by (auto simp add: fetchone_def order_by_timestamp_desc_def)
qed

section \<open>The coordinate validator: results\<close>

text \<open>
  C1. The claim is that \<^verbatim>\<open>validate_coordinates\<close> returns the pair exactly for two inputs
  that convert to finite floats within the bounds, and returns \<^verbatim>\<open>None\<close> for every other
  input. The code does not do the second for an integer too large for a double: for the
  JSON integer \<open>10^400\<close> as latitude, \<^verbatim>\<open>float\<close> raises \<^verbatim>\<open>OverflowError\<close>, which
  \<^verbatim>\<open>except (ValueError, TypeError)\<close> does not catch, so the exception escapes the
  validator and the submit handler answers 500 where an invalid coordinate gets 400.
\<close>

theorem validate_coordinates_overflow_escapes:
  "validate_coordinates sf (PyInt (10 ^ 400)) (PyInt 0) = ([], Inl OverflowError) \<and>
   fst (save_location_route example_env (example_request (PyInt (10 ^ 400)) (PyInt 0)) example_sys)
     = Inr (ErrorBody InternalServerError, 500)"
  by (simp add: validate_defs float_of_int_def route_defs example_defs allow_def stored_def
      log_error_to_db_encodable encodable_py_str encodable_take)

text \<open>
  Apart from that overflow the validator accepts and rejects as intended: when neither
  conversion raises \<^verbatim>\<open>OverflowError\<close>, the result is the converted pair if both inputs
  convert to finite floats with latitude in \<open>[-90, 90]\<close> and longitude in
  \<open>[-180, 180]\<close>, bounds included, and \<^verbatim>\<open>None\<close> otherwise, so also for NaN and the
  infinities.
\<close>

theorem validate_coordinates_accepts_iff:
  assumes "py_float sf a \<noteq> Inl OverflowError" and "py_float sf b \<noteq> Inl OverflowError"
  shows "snd (validate_coordinates sf a b) =
     (if \<exists>x y. py_float sf a = Inr (Finite x) \<and> py_float sf b = Inr (Finite y) \<and>
            - 90 \<le> x \<and> x \<le> 90 \<and> - 180 \<le> y \<and> y \<le> 180
      then (case (py_float sf a, py_float sf b) of (Inr lat, Inr lon) \<Rightarrow> Inr (Some (lat, lon)) | _ \<Rightarrow> Inr None)
      else Inr None)"
proof (cases "py_float sf a")
  case (Inl x)
  then show ?thesis using assms py_float_raises [OF Inl]
    by (auto simp add: validate_defs)
next
  case a: (Inr lat)
  show ?thesis
  proof (cases "py_float sf b")
    case (Inl x)
    then show ?thesis using assms a py_float_raises [OF Inl]
      by (auto simp add: validate_defs)
  next
    case b: (Inr lon)
    show ?thesis using a b
      by (cases lat; cases lon) (auto simp add: validate_defs)
  qed
qed

theorem validate_coordinates_accepts_iff_witness:
  "py_float example_str_float (PyInt 90) \<noteq> Inl OverflowError \<and>
   py_float example_str_float (PyInt (- 180)) \<noteq> Inl OverflowError \<and>
   snd (validate_coordinates example_str_float (PyInt 90) (PyInt (- 180)))
     = Inr (Some (Finite 90, Finite (- 180))) \<and>
   snd (validate_coordinates example_str_float (PyFloat (Finite 90.0000001)) (PyInt 0)) = Inr None \<and>
   snd (validate_coordinates example_str_float (PyInt 0) (PyFloat (Finite (- 180.0000001)))) = Inr None \<and>
   snd (validate_coordinates example_str_float (PyFloat NaN) (PyInt 0)) = Inr None \<and>
   snd (validate_coordinates example_str_float (PyInt 0) (PyFloat PosInf)) = Inr None \<and>
   snd (validate_coordinates example_str_float (PyStr ''abc'') (PyInt 0)) = Inr None"
  using validate_coordinates_accepts_iff [of example_str_float "PyInt 90" "PyInt (- 180)"]
    validate_coordinates_accepts_iff [of example_str_float "PyFloat (Finite 90.0000001)" "PyInt 0"]
    validate_coordinates_accepts_iff [of example_str_float "PyInt 0" "PyFloat (Finite (- 180.0000001))"]
    validate_coordinates_accepts_iff [of example_str_float "PyFloat NaN" "PyInt 0"]
    validate_coordinates_accepts_iff [of example_str_float "PyInt 0" "PyFloat PosInf"]
    validate_coordinates_accepts_iff [of example_str_float "PyStr ''abc''" "PyInt 0"]
  by (simp add: float_of_int_small example_str_float_def)

text \<open>
  C3, as stated, fails: the claim is that a rejection carries a reason that tells an
  unparsable input from one out of range, and the latitude from the longitude. The
  validator returns the one value \<^verbatim>\<open>None\<close> for a string that is no number, for a missing
  value, for a latitude of 999 and for a longitude of 999.
\<close>

theorem validate_coordinates_rejections_alike:
  "snd (validate_coordinates example_str_float (PyStr ''abc'') (PyInt 0)) = Inr None \<and>
   snd (validate_coordinates example_str_float PyNone (PyInt 0)) = Inr None \<and>
   snd (validate_coordinates example_str_float (PyInt 999) (PyInt 0)) = Inr None \<and>
   snd (validate_coordinates example_str_float (PyInt 0) (PyInt 999)) = Inr None"
  by (simp add: validate_defs example_defs float_of_int_small)

text \<open>
  C3, amended. Every rejection returns \<^verbatim>\<open>None\<close>, whatever its cause; the cause shows
  only in the warning the validator logs: a conversion warning carrying the
  \<^verbatim>\<open>ValueError\<close> or \<^verbatim>\<open>TypeError\<close> when an input does not convert, a latitude warning
  when the latitude is out of its bounds, and a longitude warning when the latitude is
  within its bounds and the longitude is not.
\<close>

theorem validate_coordinates_rejection_warning:
  "(py_float sf a = Inl x \<and> (x = ValueError \<or> x = TypeError) \<longrightarrow>
      validate_coordinates sf a b = ([ConversionError x], Inr None)) \<and>
   (py_float sf a = Inr lat \<and> py_float sf b = Inl x \<and> (x = ValueError \<or> x = TypeError) \<longrightarrow>
      validate_coordinates sf a b = ([ConversionError x], Inr None)) \<and>
   (py_float sf a = Inr lat \<and> py_float sf b = Inr lon \<and>
    \<not> (int_le_float (- 90) lat \<and> float_le_int lat 90) \<longrightarrow>
      validate_coordinates sf a b = ([BadLatitude lat], Inr None)) \<and>
   (py_float sf a = Inr lat \<and> py_float sf b = Inr lon \<and>
    (int_le_float (- 90) lat \<and> float_le_int lat 90) \<and>
    \<not> (int_le_float (- 180) lon \<and> float_le_int lon 180) \<longrightarrow>
      validate_coordinates sf a b = ([BadLongitude lon], Inr None))"
  by (auto simp add: validate_defs)

theorem validate_coordinates_rejection_warning_witness:
  "validate_coordinates example_str_float (PyStr ''abc'') (PyInt 0)
     = ([ConversionError ValueError], Inr None) \<and>
   validate_coordinates example_str_float (PyInt 0) PyNone
     = ([ConversionError TypeError], Inr None) \<and>
   validate_coordinates example_str_float (PyInt 999) (PyInt 0)
     = ([BadLatitude (Finite 999)], Inr None) \<and>
   validate_coordinates example_str_float (PyInt 0) (PyInt 999)
     = ([BadLongitude (Finite 999)], Inr None)"
  using
    validate_coordinates_rejection_warning
      [where sf = example_str_float and a = "PyStr ''abc''" and x = ValueError and b = "PyInt 0"]
    validate_coordinates_rejection_warning
      [where sf = example_str_float and a = "PyInt 0" and lat = "Finite 0" and b = PyNone
         and x = TypeError]
    validate_coordinates_rejection_warning
      [where sf = example_str_float and a = "PyInt 999" and lat = "Finite 999"
         and b = "PyInt 0" and lon = "Finite 0"]
    validate_coordinates_rejection_warning
      [where sf = example_str_float and a = "PyInt 0" and lat = "Finite 0"
         and b = "PyInt 999" and lon = "Finite 999"]
  by (simp add: example_defs float_of_int_small)

section \<open>The rate limiter: results\<close>

text \<open>
  C2, as stated, fails: the claim keeps a timestamp that is exactly \<^verbatim>\<open>window\<close> seconds
  old. The code keeps a timestamp only while \<^verbatim>\<open>current_time - req_time < window\<close>: with
  one request allowed per 60 seconds and a request stored at time 0, the difference at
  time 60 is 60, the old request is discarded and the new one is admitted and served.
\<close>

theorem allow_boundary_timestamp_discarded:
  "double_sub (Double 60 0) (Double 0 0) = Finite 60 \<and>
   allow 1 60 ''10.0.0.1'' (Double 60 0) [''10.0.0.1'' \<mapsto> [Double 0 0]]
     = (True, [''10.0.0.1'' \<mapsto> [Double 60 0]]) \<and>
   map_sum id snd
     (fst (rate_limit 1 60 save_location (fst (example_call 60)) (snd (example_call 60))
             (example_sys\<lparr>requests := [''10.0.0.1'' \<mapsto> [Double 0 0]]\<rparr>)))
     = Inr 200"
  by (simp add: allow_def stored_def double_sub_seconds rate_limit_def example_defs
      save_location_def save_location_try_def persist_def py_get_def validate_defs
      float_of_int_small insert_location_def)

text \<open>
  C2, amended. On every request through \<^verbatim>\<open>rate_limit\<close> exactly the stored timestamps
  of the client whose age, the difference \<^verbatim>\<open>current_time - req_time\<close> as the code
  computes it in doubles, is at least \<^verbatim>\<open>window\<close> are discarded, so a timestamp exactly
  \<^verbatim>\<open>window\<close> seconds old is discarded too; if \<^verbatim>\<open>max_requests\<close> or more remain, the request
  is answered 429 and the current time is not recorded; otherwise the current time is
  appended and the wrapped handler runs. With 3 requests per 60 seconds, three requests
  of one client within the window are served, the fourth is answered 429, and a request
  after the window has passed is served again. The age is the rounded difference: a
  timestamp of \<open>2^-60\<close> is 60.0 seconds old when the clock reads 60.0.
\<close>

theorem rate_limit_sliding_window:
  "rate_limit max_requests window f e req st =
     (let kept = [t \<leftarrow> stored (requests st) (remote_addr req).
                    float_less (double_sub (clock e) t) window]
      in if max_requests \<le> int (length kept)
         then (Inr (ErrorBody RateLimitExceeded, 429),
               st\<lparr>requests := (requests st)(remote_addr req \<mapsto> kept)\<rparr>)
         else f e req (st\<lparr>requests := (requests st)(remote_addr req \<mapsto> kept @ [clock e])\<rparr>)) \<and>
   map (map_sum id snd)
     (fst (serve (rate_limit 3 60 save_location)
             [example_call 0, example_call 10, example_call 20, example_call 30,
              example_call 100] example_sys))
     = [Inr 200, Inr 200, Inr 200, Inr 429, Inr 200] \<and>
   allow 1 60 client_ip (Double 60 0) [client_ip \<mapsto> [Double 1 (- 60)]]
     = (True, [client_ip \<mapsto> [Double 60 0]])"
proof (intro conjI)
  show "rate_limit max_requests window f e req st =
     (let kept = [t \<leftarrow> stored (requests st) (remote_addr req).
                    float_less (double_sub (clock e) t) window]
      in if max_requests \<le> int (length kept)
         then (Inr (ErrorBody RateLimitExceeded, 429),
               st\<lparr>requests := (requests st)(remote_addr req \<mapsto> kept)\<rparr>)
         else f e req (st\<lparr>requests := (requests st)(remote_addr req \<mapsto> kept @ [clock e])\<rparr>))"
    by (simp add: rate_limit_def allow_def Let_def)
  show "map (map_sum id snd)
     (fst (serve (rate_limit 3 60 save_location)
             [example_call 0, example_call 10, example_call 20, example_call 30,
              example_call 100] example_sys))
     = [Inr 200, Inr 200, Inr 200, Inr 429, Inr 200]"
    by (simp add: allow_def stored_def double_sub_seconds rate_limit_def example_defs
        save_location_def save_location_try_def persist_def py_get_def validate_defs
        float_of_int_small insert_location_def)
  show "allow 1 60 client_ip (Double 60 0) [client_ip \<mapsto> [Double 1 (- 60)]]
     = (True, [client_ip \<mapsto> [Double 60 0]])"
    by (simp add: allow_def stored_def double_sub_rounds)
qed




section \<open>The submit handler: results\<close>

text \<open>
  C4. A request that is not declared as JSON is answered 415 by \<^verbatim>\<open>require_json\<close>
  before the rate limiter is reached: the whole state, so also the limiter's list of that
  client, is as before.
\<close>

theorem content_type_check_before_rate_limit:
  "\<not> is_json req \<Longrightarrow>
     save_location_route e req st = (Inr (ErrorBody ContentTypeMustBeJson, 415), st)"
  by (simp add: save_location_route_def require_json_def)

theorem content_type_check_before_rate_limit_witness:
  "\<not> is_json ((example_request (PyInt 1) (PyInt 2))\<lparr>is_json := False\<rparr>) \<and>
   save_location_route example_env ((example_request (PyInt 1) (PyInt 2))\<lparr>is_json := False\<rparr>)
      (example_sys\<lparr>requests := [''10.0.0.1'' \<mapsto> [Double 999 0]]\<rparr>)
    = (Inr (ErrorBody ContentTypeMustBeJson, 415),
       example_sys\<lparr>requests := [''10.0.0.1'' \<mapsto> [Double 999 0]]\<rparr>)"
  using content_type_check_before_rate_limit
    [of "(example_request (PyInt 1) (PyInt 2))\<lparr>is_json := False\<rparr>" example_env
       "example_sys\<lparr>requests := [''10.0.0.1'' \<mapsto> [Double 999 0]]\<rparr>"]
  by (simp add: example_defs)

text \<open>
  C5. Whenever the submit route answers 400, the store is unchanged: no location row is
  added and the count the statistics report is the same.
\<close>

theorem bad_request_persists_nothing:
  "fst (save_location_route e req st) = Inr (b, 400) \<Longrightarrow>
     db (snd (save_location_route e req st)) = db st \<and>
     locations (db (snd (save_location_route e req st))) = locations (db st) \<and>
     count_locations (db (snd (save_location_route e req st))) = count_locations (db st)"
  by (auto simp add: save_location_route_def require_json_def rate_limit_def save_location_400
      split: if_splits prod.splits bool.splits)

theorem bad_request_persists_nothing_witness:
  "fst (save_location_route example_env (example_request (PyInt 999) (PyInt 0))
          (example_sys\<lparr>db := example_store\<rparr>)) = Inr (ErrorBody InvalidCoordinates, 400) \<and>
   db (snd (save_location_route example_env (example_request (PyInt 999) (PyInt 0))
          (example_sys\<lparr>db := example_store\<rparr>))) = example_store \<and>
   fst (save_location_route example_env (example_request (PyStr ''abc'') (PyInt 0))
          (example_sys\<lparr>db := example_store\<rparr>)) = Inr (ErrorBody InvalidCoordinates, 400) \<and>
   db (snd (save_location_route example_env (example_request (PyStr ''abc'') (PyInt 0))
          (example_sys\<lparr>db := example_store\<rparr>))) = example_store \<and>
   fst (save_location_route example_env (example_request (PyInt 5) PyNone)
          (example_sys\<lparr>db := example_store\<rparr>)) = Inr (ErrorBody MissingRequiredFields, 400) \<and>
   db (snd (save_location_route example_env (example_request (PyInt 5) PyNone)
          (example_sys\<lparr>db := example_store\<rparr>))) = example_store"
proof -
  have 1: "fst (save_location_route example_env (example_request (PyInt 999) (PyInt 0))
          (example_sys\<lparr>db := example_store\<rparr>)) = Inr (ErrorBody InvalidCoordinates, 400)"
    by (simp add: route_defs example_defs allow_def stored_def validate_defs float_of_int_small)
  have 2: "fst (save_location_route example_env (example_request (PyStr ''abc'') (PyInt 0))
          (example_sys\<lparr>db := example_store\<rparr>)) = Inr (ErrorBody InvalidCoordinates, 400)"
    by (simp add: route_defs example_defs allow_def stored_def validate_defs float_of_int_small)
  have 3: "fst (save_location_route example_env (example_request (PyInt 5) PyNone)
          (example_sys\<lparr>db := example_store\<rparr>)) = Inr (ErrorBody MissingRequiredFields, 400)"
    by (simp add: route_defs example_defs allow_def stored_def validate_defs float_of_int_small)
  show ?thesis
    using 1 2 3 bad_request_persists_nothing [OF 1] bad_request_persists_nothing [OF 2]
      bad_request_persists_nothing [OF 3]
    by (simp add: example_sys_def)
qed

text \<open>
  Every location the submit route stores lies within the bounds: when the answer is 200,
  the echoed latitude and longitude are finite, the latitude in \<open>[-90, 90]\<close> and the
  longitude in \<open>[-180, 180]\<close>.
\<close>

theorem saved_coordinates_within_bounds:
  assumes "fst (save_location_route e req st) = Inr (SavedBody i lat lon, 200)"
  shows "\<exists>x y. lat = Finite x \<and> lon = Finite y \<and> - 90 \<le> x \<and> x \<le> 90 \<and> - 180 \<le> y \<and> y \<le> 180"
proof -
  have "fst (save_location e req st') = Inr (SavedBody i lat lon, 200) \<Longrightarrow>
      fst (save_location_try e req st') = Inr (SavedBody i lat lon, 200)" for st'
    using log_error_to_db_returns [of "sink_fault e" "db_clock e" _ "''/save_location''"]
    by (auto simp add: save_location_def split: prod.splits sum.splits)
  then obtain a b where "snd (validate_coordinates (str_float e) a b) = Inr (Some (lat, lon))"
    using assms save_location_try_saved
    by (auto simp add: save_location_route_def require_json_def rate_limit_def
        split: if_splits prod.splits bool.splits) blast+
  then show ?thesis by (rule validate_Some)
qed

theorem saved_coordinates_within_bounds_witness:
  "fst (save_location_route example_env
          (example_request (PyStr ''55.5'') (PyFloat (Finite 37.5))) example_sys)
     = Inr (SavedBody 1 (Finite 55.5) (Finite 37.5), 200) \<and>
   (\<exists>x y. Finite 55.5 = Finite x \<and> Finite 37.5 = Finite y \<and>
      - 90 \<le> x \<and> x \<le> 90 \<and> - 180 \<le> y \<and> y \<le> (180::real))"
proof -
  have ok: "fst (save_location_route example_env
          (example_request (PyStr ''55.5'') (PyFloat (Finite 37.5))) example_sys)
     = Inr (SavedBody 1 (Finite 55.5) (Finite 37.5), 200)"
    by (simp add: route_defs example_defs allow_def stored_def validate_defs insert_location_def)
  show ?thesis
    using ok saved_coordinates_within_bounds [OF ok] by simp
qed

text \<open>
  C8. Take a request that would be stored if the database worked. When the insert
  raises a storage error instead, the answer is 500 with the fixed text \<open>SaveFailed\<close>,
  the same for any two error texts, and the store afterwards is what
  \<^verbatim>\<open>log_error_to_db\<close> makes of the error text on the endpoint \<^verbatim>\<open>/save_location\<close>.
\<close>

theorem storage_error_generic_500:
  assumes "fst (save_location_route (e\<lparr>db_fault := None\<rparr>) req st) = Inr (SavedBody i lat lon, 200)"
  shows "fst (save_location_route (e\<lparr>db_fault := Some m\<rparr>) req st)
           = Inr (ErrorBody SaveFailed, 500) \<and>
         fst (save_location_route (e\<lparr>db_fault := Some m'\<rparr>) req st)
           = fst (save_location_route (e\<lparr>db_fault := Some m\<rparr>) req st) \<and>
         Inr (db (snd (save_location_route (e\<lparr>db_fault := Some m\<rparr>) req st)))
           = log_error_to_db (sink_fault e) (db_clock e) (py_str m)
               (py_str ''/save_location'') (db st)"
  using assms
    log_error_to_db_returns [of "sink_fault e" "db_clock e" m "''/save_location''" "db st"]
  by (auto simp add: save_location_route_def require_json_def rate_limit_def
      save_location_fault persist_fault split: if_splits prod.splits bool.splits)

theorem storage_error_generic_500_witness:
  "fst (save_location_route (example_env\<lparr>db_fault := None\<rparr>)
          (example_request (PyStr ''55.5'') (PyFloat (Finite 37.5))) example_sys)
     = Inr (SavedBody 1 (Finite 55.5) (Finite 37.5), 200) \<and>
   fst (save_location_route (example_env\<lparr>db_fault := Some ''database is locked''\<rparr>)
          (example_request (PyStr ''55.5'') (PyFloat (Finite 37.5))) example_sys)
     = Inr (ErrorBody SaveFailed, 500) \<and>
   fst (save_location_route (example_env\<lparr>db_fault := Some ''disk I/O error''\<rparr>)
          (example_request (PyStr ''55.5'') (PyFloat (Finite 37.5))) example_sys)
     = Inr (ErrorBody SaveFailed, 500) \<and>
   error_logs (db (snd (save_location_route (example_env\<lparr>db_fault := Some ''database is locked''\<rparr>)
          (example_request (PyStr ''55.5'') (PyFloat (Finite 37.5))) example_sys)))
     = [\<lparr>log_id = 1, log_error_message = py_str ''database is locked'',
         log_endpoint = py_str ''/save_location'', log_created_at = ''2024-05-01 12:00:00''\<rparr>]"
proof -
  have ok: "fst (save_location_route (example_env\<lparr>db_fault := None\<rparr>)
          (example_request (PyStr ''55.5'') (PyFloat (Finite 37.5))) example_sys)
     = Inr (SavedBody 1 (Finite 55.5) (Finite 37.5), 200)"
    by (simp add: route_defs example_defs allow_def stored_def validate_defs insert_location_def)
  have "length (py_str ''database is locked'') \<le> 500" by (simp add: py_str_def)
  then have log: "log_error_to_db (sink_fault example_env) (db_clock example_env)
      (py_str ''database is locked'') (py_str ''/save_location'') (db example_sys) =
     Inr (empty_store\<lparr>error_logs :=
            [\<lparr>log_id = 1, log_error_message = py_str ''database is locked'',
              log_endpoint = py_str ''/save_location'',
              log_created_at = ''2024-05-01 12:00:00''\<rparr>],
          error_logs_seq := 1\<rparr>)"
    by (simp add: log_error_to_db_encodable encodable_py_str encodable_take example_defs)
  show ?thesis
    using ok storage_error_generic_500 [OF ok, of "''database is locked''" "''disk I/O error''"]
    by (simp add: log)
qed

section \<open>The error-log sink\<close>

text \<open>
  C6, as stated, fails: the claim is that \<^verbatim>\<open>log_error_to_db\<close> never raises, for every
  message and endpoint. For a message with a lone surrogate among its first 500
  characters the binding of the \<^verbatim>\<open>INSERT\<close> raises \<^verbatim>\<open>UnicodeEncodeError\<close>, which
  \<^verbatim>\<open>except SQLiteError\<close> does not catch: the function raises. A surrogate beyond the
  first 500 characters is cut off and does no harm.
\<close>

theorem log_error_to_db_surrogate_escapes:
  "log_error_to_db None ''2024-05-01 12:00:00'' [0xD800] (py_str ''/save_location'') empty_store
     = Inl UnicodeEncodeError \<and>
   log_error_to_db None ''2024-05-01 12:00:00'' (replicate 499 97 @ [0xD800])
       (py_str ''/save_location'') empty_store
     = Inl UnicodeEncodeError"
  by (simp add: log_error_to_db_def insert_error_log_def encodable_def)

text \<open>
  C6, amended. For every message and endpoint that the binding can encode, that is with
  no lone surrogate among the first 500 characters of the message and none in the
  endpoint, \<^verbatim>\<open>log_error_to_db\<close> returns normally whether or not the insert fails: on
  success the error table gains one row whose message is the first 500 characters of
  the given one (so at most 500 long), on a storage failure the store is as before and
  nothing is raised. The handler that calls it, \<^verbatim>\<open>save_location\<close>, passes only such
  texts and so always ends with a response, whatever fails in the sink.
\<close>

theorem log_error_to_db_truncates_and_swallows:
  assumes "encodable (take 500 error_message)" and "encodable endpoint"
  shows "log_error_to_db fault db_now error_message endpoint s =
     Inr (case fault of
            Some m \<Rightarrow> s
          | None \<Rightarrow>
              s\<lparr>error_logs := error_logs s @
                   [\<lparr>log_id = Suc (error_logs_seq s),
                     log_error_message = take 500 error_message,
                     log_endpoint = endpoint, log_created_at = db_now\<rparr>],
                error_logs_seq := Suc (error_logs_seq s)\<rparr>)
   \<and> length (take 500 error_message) \<le> 500
   \<and> (\<exists>r st'. save_location e req st = (Inr r, st'))"
proof -
  have "\<exists>r st'. save_location e req st = (Inr r, st')"
  proof (cases "save_location_try e req st")
    case (Pair out st1)
    show ?thesis
    proof (cases out)
      case (Inr r)
      with Pair show ?thesis by (simp add: save_location_def)
    next
      case (Inl x)
      obtain d where "log_error_to_db (sink_fault e) (db_clock e) (py_str (exn_str x))
          (py_str ''/save_location'') (db st1) = Inr d"
        using log_error_to_db_returns by blast
      with Pair Inl show ?thesis by (simp add: save_location_def)
    qed
  qed
  then show ?thesis
    using assms by (simp add: log_error_to_db_encodable)
qed

theorem log_error_to_db_truncates_and_swallows_witness:
  "encodable (take 500 (py_str ''database is locked'')) \<and>
   encodable (py_str ''/save_location'') \<and>
   log_error_to_db None ''2024-05-01 12:00:00'' (py_str ''database is locked'')
       (py_str ''/save_location'') empty_store
     = Inr (empty_store\<lparr>error_logs :=
              [\<lparr>log_id = 1, log_error_message = take 500 (py_str ''database is locked''),
                log_endpoint = py_str ''/save_location'',
                log_created_at = ''2024-05-01 12:00:00''\<rparr>],
            error_logs_seq := 1\<rparr>) \<and>
   log_error_to_db (Some ''disk I/O error'') ''2024-05-01 12:00:00''
       (py_str ''database is locked'') (py_str ''/save_location'') empty_store
     = Inr empty_store \<and>
   encodable (take 500 (replicate 500 97 @ [0xD800])) \<and>
   log_error_to_db None ''2024-05-01 12:00:00'' (replicate 500 97 @ [0xD800])
       (py_str ''/save_location'') empty_store
     = Inr (empty_store\<lparr>error_logs :=
              [\<lparr>log_id = 1, log_error_message = replicate 500 97,
                log_endpoint = py_str ''/save_location'',
                log_created_at = ''2024-05-01 12:00:00''\<rparr>],
            error_logs_seq := 1\<rparr>)"
proof -
  have a: "encodable (take 500 (py_str ''database is locked''))"
    by (simp add: encodable_py_str encodable_take)
  have b: "encodable (py_str ''/save_location'')"
    by (rule encodable_py_str)
  have c: "encodable (take 500 (replicate 500 97 @ [0xD800]))"
    by (simp add: encodable_def list_all_iff)
  show ?thesis
    using a b c
      log_error_to_db_truncates_and_swallows [OF a b, of None "''2024-05-01 12:00:00''" empty_store]
      log_error_to_db_truncates_and_swallows
        [OF a b, of "Some ''disk I/O error''" "''2024-05-01 12:00:00''" empty_store]
      log_error_to_db_truncates_and_swallows [OF c b, of None "''2024-05-01 12:00:00''" empty_store]
    by (simp add: empty_store_def)
qed

section \<open>Statistics and health\<close>

text \<open>
  C7. When the queries succeed: on an empty table the answer is 200 with a count of 0
  and neither a last location nor a first date; on a table with rows the count is the
  number of rows, the last location is a row whose timestamp no row exceeds, and the
  first date is a timestamp that no row precedes.
\<close>

theorem statistics_of_store:
  assumes "db_fault e = None"
  shows "(locations (db st) = [] \<longrightarrow>
            get_statistics e st = (Inr (StatisticsBody 0 None None, 200), st)) \<and>
         (locations (db st) \<noteq> [] \<longrightarrow>
            (\<exists>last \<in> set (locations (db st)). \<exists>first \<in> set (locations (db st)).
               get_statistics e st =
                 (Inr (StatisticsBody (length (locations (db st)))
                        (Some (loc_latitude last, loc_longitude last, loc_timestamp last))
                        (Some (loc_timestamp first)), 200), st) \<and>
               (\<forall>r \<in> set (locations (db st)).
                  loc_timestamp r \<le> loc_timestamp last \<and>
                  loc_timestamp first \<le> loc_timestamp r)))"
proof (intro conjI impI)
  assume "locations (db st) = []"
  then show "get_statistics e st = (Inr (StatisticsBody 0 None None, 200), st)"
    using assms
    by (simp add: statistics_defs fetchone_def
        order_by_timestamp_asc_def order_by_timestamp_desc_def)
next
  assume ne: "locations (db st) \<noteq> []"
  from fetchone_desc [OF ne] obtain l where l: "l \<in> set (locations (db st))"
    "fetchone (order_by_timestamp_desc (locations (db st))) = Some l"
    "\<forall>r' \<in> set (locations (db st)). loc_timestamp r' \<le> loc_timestamp l" by blast
  from fetchone_asc [OF ne] obtain f where f: "f \<in> set (locations (db st))"
    "fetchone (order_by_timestamp_asc (locations (db st))) = Some f"
    "\<forall>r' \<in> set (locations (db st)). loc_timestamp f \<le> loc_timestamp r'" by blast
  have "get_statistics e st =
                 (Inr (StatisticsBody (length (locations (db st)))
                        (Some (loc_latitude l, loc_longitude l, loc_timestamp l))
                        (Some (loc_timestamp f)), 200), st)"
    using assms l(2) f(2) by (simp add: statistics_defs)
  then show "\<exists>last \<in> set (locations (db st)). \<exists>first \<in> set (locations (db st)).
               get_statistics e st =
                 (Inr (StatisticsBody (length (locations (db st)))
                        (Some (loc_latitude last, loc_longitude last, loc_timestamp last))
                        (Some (loc_timestamp first)), 200), st) \<and>
               (\<forall>r \<in> set (locations (db st)).
                  loc_timestamp r \<le> loc_timestamp last \<and>
                  loc_timestamp first \<le> loc_timestamp r)"
    using l(1,3) f(1,3) by blast
qed

theorem statistics_of_store_witness:
  "db_fault example_env = None \<and> locations (db example_sys) = [] \<and>
   get_statistics example_env example_sys = (Inr (StatisticsBody 0 None None, 200), example_sys) \<and>
   locations (db (example_sys\<lparr>db := example_store\<rparr>)) \<noteq> [] \<and>
   get_statistics example_env (example_sys\<lparr>db := example_store\<rparr>) =
     (Inr (StatisticsBody 3 (Some (Finite 10, Finite 20, ''2024-05-02 08:30:00''))
             (Some ''2024-04-30 23:59:59''), 200), example_sys\<lparr>db := example_store\<rparr>)"
proof -
  have f: "db_fault example_env = None" by (simp add: example_defs)
  have "get_statistics example_env (example_sys\<lparr>db := example_store\<rparr>) =
     (Inr (StatisticsBody 3 (Some (Finite 10, Finite 20, ''2024-05-02 08:30:00''))
             (Some ''2024-04-30 23:59:59''), 200), example_sys\<lparr>db := example_store\<rparr>)"
    by (simp add: statistics_defs fetchone_def order_by_timestamp_asc_def
        order_by_timestamp_desc_def example_defs)
  then show ?thesis
    using f statistics_of_store [OF f, of example_sys]
    by (simp add: example_sys_def empty_store_def example_store_def)
qed

text \<open>
  C9. \<^verbatim>\<open>health_check\<close> answers 200, healthy and connected, exactly when the probe
  \<^verbatim>\<open>SELECT 1\<close> succeeds; when the probe raises a storage error it answers 503, unhealthy
  and disconnected, with the error text; the probe does one or the other, and the state,
  so also the error table, is never changed.
\<close>

theorem health_check_reports_probe:
  "(fst (health_check e st) =
      Inr (HealthBody ''healthy'' ''connected'' (Timestamp (iso_clock e)), 200))
     = (\<exists>row. select_one (db_fault e) (db st) = Inr row) \<and>
   (\<forall>m. select_one (db_fault e) (db st) = Inl (SQLiteError m) \<longrightarrow>
      fst (health_check e st) =
        Inr (HealthBody ''unhealthy'' ''disconnected'' (ErrorDetail m), 503) \<and>
      error_logs (db (snd (health_check e st))) = error_logs (db st)) \<and>
   ((\<exists>row. select_one (db_fault e) (db st) = Inr row) \<or>
    (\<exists>m. select_one (db_fault e) (db st) = Inl (SQLiteError m))) \<and>
   snd (health_check e st) = st"
  by (cases "db_fault e") (auto simp add: health_check_def select_one_def fetchone_def)

theorem health_check_reports_probe_witness:
  "select_one (db_fault (example_env\<lparr>db_fault := Some ''unable to open database file''\<rparr>))
      (db example_sys) = Inl (SQLiteError ''unable to open database file'') \<and>
   health_check (example_env\<lparr>db_fault := Some ''unable to open database file''\<rparr>) example_sys =
     (Inr (HealthBody ''unhealthy'' ''disconnected''
        (ErrorDetail ''unable to open database file''), 503), example_sys) \<and>
   health_check example_env example_sys =
     (Inr (HealthBody ''healthy'' ''connected'' (Timestamp ''2024-05-01T12:00:00''), 200),
      example_sys)"
  using health_check_reports_probe
     [of "example_env\<lparr>db_fault := Some ''unable to open database file''\<rparr>" example_sys]
    health_check_reports_probe [of example_env example_sys]
  by (simp add: example_env_def select_one_def prod_eq_iff fetchone_def)

end
